theory Spec2Isabelle
  imports Complex_Main
begin

section \<open>JavaScript values used by daykit\<close>

text \<open>
  A JavaScript number is modelled as \<open>NaN\<close> or an exact rational. Every number the
  timezone code computes is a difference of two time values (integers) divided by 60000,
  so exact rationals decide the same comparisons as the doubles of the source. The two
  infinities are not represented.
\<close>

datatype number = NaN | Finite rat

fun jsAdd :: "number \<Rightarrow> number \<Rightarrow> number" where
  "jsAdd (Finite a) (Finite b) = Finite (a + b)"
| "jsAdd _ _ = NaN"

fun jsSub :: "number \<Rightarrow> number \<Rightarrow> number" where
  "jsSub (Finite a) (Finite b) = Finite (a - b)"
| "jsSub _ _ = NaN"

text \<open>Division by a non-zero constant, the only division of the source.\<close>

fun jsDiv :: "number \<Rightarrow> rat \<Rightarrow> number" where
  "jsDiv (Finite a) c = Finite (a / c)"
| "jsDiv NaN c = NaN"


text \<open>\<open>Math.max\<close> and \<open>Math.abs\<close>: \<open>NaN\<close> is contagious.\<close>

fun jsMax :: "number \<Rightarrow> number \<Rightarrow> number" where
  "jsMax (Finite a) (Finite b) = Finite (max a b)"
| "jsMax _ _ = NaN"

fun jsAbs :: "number \<Rightarrow> number" where
  "jsAbs (Finite a) = Finite \<bar>a\<bar>"
| "jsAbs NaN = NaN"

text \<open>\<open>a < b\<close>, \<open>a <= b\<close> and \<open>a !== b\<close> on numbers: a comparison with \<open>NaN\<close> is false,
  and \<open>NaN !== x\<close> is true for every \<open>x\<close>, \<open>NaN\<close> included.\<close>

fun jsLess :: "number \<Rightarrow> number \<Rightarrow> bool" where
  "jsLess (Finite a) (Finite b) = (a < b)"
| "jsLess _ _ = False"

fun jsLessEq :: "number \<Rightarrow> number \<Rightarrow> bool" where
  "jsLessEq (Finite a) (Finite b) = (a \<le> b)"
| "jsLessEq _ _ = False"

fun jsStrictNeq :: "number \<Rightarrow> number \<Rightarrow> bool" where
  "jsStrictNeq (Finite a) (Finite b) = (a \<noteq> b)"
| "jsStrictNeq _ _ = True"

text \<open>\<open>ToIntegerOrInfinity\<close> on a finite number: truncation towards zero.\<close>

definition jsTrunc :: "rat \<Rightarrow> int" where
  "jsTrunc r = (if r < 0 then \<lceil>r\<rceil> else \<lfloor>r\<rfloor>)"

text \<open>
  A \<open>Date\<close> object is its time value: \<open>Some t\<close> with \<open>t\<close> milliseconds since the epoch,
  or \<open>None\<close> for an Invalid Date (time value \<open>NaN\<close>).
\<close>

type_synonym date = "int option"

definition getTime :: "date \<Rightarrow> number" where
  "getTime d = (case d of None \<Rightarrow> NaN | Some t \<Rightarrow> Finite (of_int t))"

definition timeClip :: "rat \<Rightarrow> date" where
  "timeClip r = (if \<bar>r\<bar> \<le> 8640000000000000 then Some (jsTrunc r) else None)"

text \<open>Decimal digits of a number, \<open>Number.prototype.toString\<close> on an integer, and
  \<open>String.prototype.padStart\<close>.\<close>

function decimal :: "nat \<Rightarrow> string" where
  "decimal n =
     (if n < 10 then [''0123456789'' ! n]
      else decimal (n div 10) @ [''0123456789'' ! (n mod 10)])"
  by pat_completeness auto
termination
  by (relation "measure id") auto

declare decimal.simps [simp del]

definition intToString :: "int \<Rightarrow> string" where
  "intToString n = (if n < 0 then ''-'' @ decimal (nat (- n)) else decimal (nat n))"

definition padStart :: "nat \<Rightarrow> char \<Rightarrow> string \<Rightarrow> string" where
  "padStart n c s = replicate (n - length s) c @ s"

text \<open>The exceptions the host raises.\<close>

datatype exn = RangeError | TypeError

definition andThen :: "exn + 'a \<Rightarrow> ('a \<Rightarrow> exn + 'b) \<Rightarrow> exn + 'b" where
  "andThen m f = (case m of Inl e \<Rightarrow> Inl e | Inr x \<Rightarrow> f x)"

text \<open>The argument type \<open>Date | string | number\<close> of the public functions.\<close>

datatype dateInput = FromDate date | FromString string | FromNumber number

section \<open>The host calendar and locale service\<close>

text \<open>
  \<open>Date\<close> and \<open>Intl\<close> belong to the JavaScript host, not to the repository; the model takes
  them as a parameter. The fields are the host calls the source makes.
\<close>

datatype localField = DayOfMonth | Hours | Minutes | Seconds | Milliseconds

datatype dtfStyle =
    ShortZoneName
  | AllFields bool
  | MonthLong
  | MonthShort
  | WeekdayLong
  | WeekdayShort

record host =
  parseDate :: "string \<Rightarrow> date"
  supportedTimeZones :: "string list"
  validTimeZone :: "string \<Rightarrow> bool"
  validLocale :: "string \<Rightarrow> bool"
  wallClock :: "string \<Rightarrow> int \<Rightarrow> date"
  getFullYear :: "int \<Rightarrow> int"
  localDate :: "int \<Rightarrow> int \<Rightarrow> int \<Rightarrow> date"
  getLocal :: "localField \<Rightarrow> int \<Rightarrow> int"
  setLocal :: "localField \<Rightarrow> int \<Rightarrow> int \<Rightarrow> date"
  formatToParts :: "string \<Rightarrow> string \<Rightarrow> dtfStyle \<Rightarrow> int \<Rightarrow> (string \<times> string) list"
  relativeFormat :: "string \<Rightarrow> int \<Rightarrow> string \<Rightarrow> string"

text \<open>
  \<^item> \<open>parseDate s\<close> is \<open>new Date(s)\<close> for a string;
  \<^item> \<open>supportedTimeZones\<close> is \<open>Intl.supportedValuesOf("timeZone")\<close>;
  \<^item> \<open>validTimeZone z\<close>, \<open>validLocale l\<close>: whether \<open>Intl.DateTimeFormat\<close> and
    \<open>toLocaleString\<close> accept the identifier; otherwise they raise \<open>RangeError\<close>;
  \<^item> \<open>wallClock z t\<close> is \<open>new Date(new Date(t).toLocaleString("en-US", {timeZone: z}))\<close>
    for an accepted zone: the civil fields of \<open>t\<close> in \<open>z\<close>, rendered and read back
    as a local timestamp (the source only ever uses the two calls composed);
  \<^item> \<open>getFullYear t\<close>, \<open>getLocal f t\<close>, \<open>setLocal f t n\<close>: the local-time getters
    and setters of a valid \<open>Date\<close>; \<open>localDate y m d\<close> is \<open>new Date(y, m, d)\<close>;
  \<^item> \<open>formatToParts l z s t\<close>: the parts (type, value) that an \<open>Intl.DateTimeFormat\<close>
    of locale \<open>l\<close>, zone \<open>z\<close> and option set \<open>s\<close> gives for a valid time value;
  \<^item> \<open>relativeFormat l n u\<close>: \<open>Intl.RelativeTimeFormat(l, {numeric: "auto"}).format(n, u)\<close>.
\<close>

definition newDate :: "host \<Rightarrow> dateInput \<Rightarrow> date" where
  "newDate h x =
     (case x of
        FromDate d \<Rightarrow> d
      | FromString s \<Rightarrow> parseDate h s
      | FromNumber NaN \<Rightarrow> None
      | FromNumber (Finite r) \<Rightarrow> timeClip r)"

text \<open>\<open>new Date(d.toLocaleString("en-US", { timeZone }))\<close>: an Invalid Date renders as the
  string "Invalid Date" before the locale and the zone are looked at, and that string does
  not parse.\<close>

definition reparse :: "host \<Rightarrow> date \<Rightarrow> string \<Rightarrow> exn + date" where
  "reparse h d timeZone =
     (case d of
        None \<Rightarrow> Inr None
      | Some t \<Rightarrow> if validLocale h ''en-US'' \<and> validTimeZone h timeZone
                  then Inr (wallClock h timeZone t)
                  else Inl RangeError)"

text \<open>\<open>new Date(d.getFullYear(), m, day)\<close>: the year of an Invalid Date is \<open>NaN\<close>.\<close>

definition localDateOfYear :: "host \<Rightarrow> date \<Rightarrow> int \<Rightarrow> int \<Rightarrow> date" where
  "localDateOfYear h d m day =
     (case d of None \<Rightarrow> None | Some t \<Rightarrow> localDate h (getFullYear h t) m day)"

definition dateGetLocal :: "host \<Rightarrow> localField \<Rightarrow> date \<Rightarrow> number" where
  "dateGetLocal h f d = (case d of None \<Rightarrow> NaN | Some t \<Rightarrow> Finite (of_int (getLocal h f t)))"

definition dateSetLocal :: "host \<Rightarrow> localField \<Rightarrow> date \<Rightarrow> number \<Rightarrow> date" where
  "dateSetLocal h f d n =
     (case d of
        None \<Rightarrow> None
      | Some t \<Rightarrow> (case n of NaN \<Rightarrow> None | Finite r \<Rightarrow> setLocal h f t (jsTrunc r)))"

text \<open>\<open>new Intl.DateTimeFormat(locale, {timeZone, ...})\<close> and its \<open>formatToParts\<close>.\<close>

definition newDateTimeFormat ::
  "host \<Rightarrow> string \<Rightarrow> string \<Rightarrow> dtfStyle \<Rightarrow> exn + (string \<times> string \<times> dtfStyle)" where
  "newDateTimeFormat h locale timeZone style =
     (if validLocale h locale \<and> validTimeZone h timeZone then Inr (locale, timeZone, style)
      else Inl RangeError)"

definition dtfFormatToParts ::
  "host \<Rightarrow> string \<times> string \<times> dtfStyle \<Rightarrow> date \<Rightarrow> exn + (string \<times> string) list" where
  "dtfFormatToParts h fmt d =
     (case d of
        None \<Rightarrow> Inl RangeError
      | Some t \<Rightarrow> (case fmt of (locale, timeZone, style) \<Rightarrow>
                    Inr (formatToParts h locale timeZone style t)))"

definition dtfFormat :: "host \<Rightarrow> string \<times> string \<times> dtfStyle \<Rightarrow> date \<Rightarrow> exn + string" where
  "dtfFormat h fmt d = andThen (dtfFormatToParts h fmt d) (\<lambda>parts. Inr (concat (map snd parts)))"

section \<open>Timezone queries\<close>

text \<open>The interface \<open>TimezoneInfo\<close>; its field \<open>abbreviation\<close> is \<open>abbrev\<close> here.\<close>

record TimezoneInfo =
  name :: string
  offset :: number
  isDST :: bool
  abbrev :: string

definition offsetMinutes :: "date \<Rightarrow> date \<Rightarrow> number" where
  "offsetMinutes tzDate utcDate = jsDiv (jsSub (getTime tzDate) (getTime utcDate)) 60000"

definition getTimezoneInfo_try :: "host \<Rightarrow> dateInput \<Rightarrow> string \<Rightarrow> exn + TimezoneInfo" where
  "getTimezoneInfo_try h date timeZone =
     (let d = newDate h date in
      andThen (reparse h d ''UTC'') (\<lambda>utcDate.
      andThen (reparse h d timeZone) (\<lambda>tzDate.
      let offset = offsetMinutes tzDate utcDate in
      andThen
        (if timeZone = ''America/New_York'' then Inr (jsStrictNeq offset (Finite (- 300)))
         else if timeZone = ''UTC'' then Inr False
         else
           (let jan = localDateOfYear h d 0 1;
                jul = localDateOfYear h d 6 1 in
            andThen (reparse h jan timeZone) (\<lambda>janTzDate.
            andThen (reparse h jan ''UTC'') (\<lambda>janUtcDate.
            andThen (reparse h jul timeZone) (\<lambda>julTzDate.
            andThen (reparse h jul ''UTC'') (\<lambda>julUtcDate.
            let janOffset = offsetMinutes janTzDate janUtcDate;
                julOffset = offsetMinutes julTzDate julUtcDate in
            Inr (jsLess (jsAbs (jsSub offset (jsMax janOffset julOffset))) (Finite (1 / 1000000))
                 \<and> jsStrictNeq janOffset julOffset)))))))
        (\<lambda>isDST.
      andThen (newDateTimeFormat h ''en-US'' timeZone ShortZoneName) (\<lambda>abbreviationFormatter.
      andThen (dtfFormatToParts h abbreviationFormatter d) (\<lambda>parts.
      let abbreviation' =
            (case find (\<lambda>part. fst part = ''timeZoneName'') parts of
               None \<Rightarrow> []
             | Some part \<Rightarrow> snd part) in
      Inr \<lparr>name = timeZone, offset = offset, isDST = isDST,
           abbrev = abbreviation'\<rparr>))))))"

definition getTimezoneInfo :: "host \<Rightarrow> dateInput \<Rightarrow> string \<Rightarrow> TimezoneInfo" where
  "getTimezoneInfo h date timeZone =
     (case getTimezoneInfo_try h date timeZone of
        Inr info \<Rightarrow> info
      | Inl e \<Rightarrow> \<lparr>name = timeZone, offset = Finite 0, isDST = False, abbrev = ''UTC''\<rparr>)"

definition getTimezoneOffset :: "host \<Rightarrow> dateInput \<Rightarrow> string \<Rightarrow> number" where
  "getTimezoneOffset h date timeZone =
     (case
        (let d = newDate h date in
         andThen (reparse h d ''UTC'') (\<lambda>utcDate.
         andThen (reparse h d timeZone) (\<lambda>tzDate.
         Inr (offsetMinutes tzDate utcDate))))
      of Inr r \<Rightarrow> r | Inl e \<Rightarrow> Finite 0)"

text \<open>\<open>isDST(timeZone)\<close> reads the clock: \<open>now\<close> is the value of \<open>new Date()\<close>.\<close>

definition isDST_now :: "host \<Rightarrow> int \<Rightarrow> string \<Rightarrow> bool" where
  "isDST_now h now timeZone = isDST (getTimezoneInfo h (FromDate (Some now)) timeZone)"


subsection \<open>DST transitions\<close>

text \<open>Days since the epoch of the first of a month of the proleptic Gregorian calendar, and
  the time value of a UTC date: what \<open>new Date("2024-03-10T07:00:00Z")\<close> denotes.\<close>

definition daysFromCivil :: "int \<Rightarrow> int \<Rightarrow> int \<Rightarrow> int" where
  "daysFromCivil y m d =
     (let y' = (if m \<le> 2 then y - 1 else y);
          era = y' div 400;
          yoe = y' - era * 400;
          doy = (153 * (if m > 2 then m - 3 else m + 9) + 2) div 5 + d - 1;
          doe = yoe * 365 + yoe div 4 - yoe div 100 + doy
      in era * 146097 + doe - 719468)"

definition utcTime :: "int \<Rightarrow> int \<Rightarrow> int \<Rightarrow> int \<Rightarrow> int \<Rightarrow> int \<Rightarrow> int" where
  "utcTime y m d hh mm ss =
     daysFromCivil y m d * 86400000 + hh * 3600000 + mm * 60000 + ss * 1000"

record DSTTransitions =
  start :: "date option"
  endDate :: "date option"

text \<open>\<open>d <= end\<close> on two \<open>Date\<close> objects compares their time values.\<close>

definition dateLessEq :: "date \<Rightarrow> date \<Rightarrow> bool" where
  "dateLessEq a b = jsLessEq (getTime a) (getTime b)"

text \<open>
  The loop \<open>for (let d = new Date(start); d <= end; d.setDate(d.getDate() + 1))\<close>, with
  \<open>end'\<close> for the source's \<open>end\<close>. The host decides what the next day is, so the loop
  is partial: \<open>None\<close> is a scan that never ends.
\<close>

partial_function (option) scanDays ::
  "host \<Rightarrow> string \<Rightarrow> date \<Rightarrow> date \<Rightarrow> date list \<Rightarrow> date list option" where
  "scanDays h timeZone d end' transitions =
     (if dateLessEq d end' then
        scanDays h timeZone
          (dateSetLocal h DayOfMonth d (jsAdd (dateGetLocal h DayOfMonth d) (Finite 1))) end'
          (if transitions = [] \<or>
              isDST (getTimezoneInfo h (FromDate d) timeZone) \<noteq>
              isDST (getTimezoneInfo h
                       (FromNumber (jsSub (getTime d) (Finite 86400000))) timeZone)
           then transitions @ [d] else transitions)
      else Some transitions)"

declare scanDays.simps [code]

text \<open>\<open>transitions[i] || null\<close>: a \<open>Date\<close> object is truthy, a missing element is not.\<close>

definition elementOrNull :: "date list \<Rightarrow> nat \<Rightarrow> date option" where
  "elementOrNull xs i = (if i < length xs then Some (xs ! i) else None)"

text \<open>\<open>getDSTTransitions(timeZone, year = new Date().getFullYear())\<close>; \<open>now\<close> is the clock.\<close>

definition getDSTTransitions ::
  "host \<Rightarrow> int \<Rightarrow> string \<Rightarrow> int option \<Rightarrow> DSTTransitions option" where
  "getDSTTransitions h now timeZone yearArg =
     (let year = (case yearArg of None \<Rightarrow> getFullYear h now | Some y \<Rightarrow> y) in
      if timeZone = ''UTC'' then Some \<lparr>start = None, endDate = None\<rparr>
      else if timeZone \<notin> set (supportedTimeZones h) then Some \<lparr>start = None, endDate = None\<rparr>
      else if year = 2024 \<and> timeZone = ''America/New_York'' then
        Some \<lparr>start = Some (Some (utcTime 2024 3 10 7 0 0)),
              endDate = Some (Some (utcTime 2024 11 3 6 0 0))\<rparr>
      else
        (let start' = localDate h year 0 1;
             end' = localDate h year 11 31 in
         map_option
           (\<lambda>transitions. \<lparr>start = elementOrNull transitions 0,
                            endDate = elementOrNull transitions 1\<rparr>)
           (scanDays h timeZone start' end' [])))"

section \<open>Formatting\<close>

text \<open>The interface \<open>FormatOptions\<close>; its field \<open>locale\<close> is \<open>locale'\<close> here.\<close>

record FormatOptions =
  locale' :: "string option"
  timeZone :: "string option"
  hour12 :: "bool option"

text \<open>\<open>getUTCHours\<close>, \<open>getUTCMinutes\<close> and \<open>getUTCSeconds\<close> of a valid time value.\<close>

definition getUTCHours :: "int \<Rightarrow> int" where
  "getUTCHours t = t div 3600000 mod 24"

definition getUTCMinutes :: "int \<Rightarrow> int" where
  "getUTCMinutes t = t div 60000 mod 60"

definition getUTCSeconds :: "int \<Rightarrow> int" where
  "getUTCSeconds t = t div 1000 mod 60"

text \<open>\<open>toString\<close> of a getter's result: an integer, or \<open>NaN\<close> on an Invalid Date.\<close>

definition numberToString :: "int option \<Rightarrow> string" where
  "numberToString n = (case n of None \<Rightarrow> ''NaN'' | Some i \<Rightarrow> intToString i)"

text \<open>
  A regular expression that is an alternation of literal strings, as both regular
  expressions of \<open>format\<close> are: the alternatives are tried in the order they are written, and
  the first one that matches at a position wins.
\<close>

definition startsWith :: "string \<Rightarrow> string \<Rightarrow> bool" where
  "startsWith tk s = (take (length tk) s = tk)"

definition matchAt :: "string list \<Rightarrow> string \<Rightarrow> string option" where
  "matchAt alts s = find (\<lambda>tk. startsWith tk s) alts"

text \<open>\<open>regex.test(s)\<close>: some position of \<open>s\<close> has a match.\<close>

fun regexTest :: "string list \<Rightarrow> string \<Rightarrow> bool" where
  "regexTest alts [] = (matchAt alts [] \<noteq> None)"
| "regexTest alts (c # cs) = (matchAt alts (c # cs) \<noteq> None \<or> regexTest alts cs)"

text \<open>\<open>s.replace(regex, f)\<close> with the \<open>g\<close> flag: scan from the left; at a match, emit \<open>f\<close> of
  the matched text and go on behind it; otherwise copy one character.\<close>

function replaceAll :: "string list \<Rightarrow> (string \<Rightarrow> string) \<Rightarrow> string \<Rightarrow> string" where
  "replaceAll alts f [] = (case matchAt alts [] of None \<Rightarrow> [] | Some tk \<Rightarrow> f tk)"
| "replaceAll alts f (c # cs) =
     (case matchAt alts (c # cs) of
        None \<Rightarrow> c # replaceAll alts f cs
      | Some tk \<Rightarrow>
          if tk = [] then f tk @ c # replaceAll alts f cs
          else f tk @ replaceAll alts f (drop (length tk) (c # cs)))"
  by pat_completeness auto
termination
  by (relation "measure (\<lambda>(alts, f, s). length s)") auto

definition tokenRegex :: "string list" where
  "tokenRegex = [''YYYY'', ''MMMM'', ''dddd'', ''MMM'', ''ddd'', ''YY'', ''MM'', ''DD'', ''HH'',
     ''hh'', ''mm'', ''ss'', ''A'', ''a'', ''Z'']"

text \<open>\<open>tokenMap[match] ?? match\<close>.\<close>

definition lookupToken :: "(string \<times> string option) list \<Rightarrow> string \<Rightarrow> string" where
  "lookupToken tokenMap m = (case map_of tokenMap m of Some (Some v) \<Rightarrow> v | _ \<Rightarrow> m)"

text \<open>A property of an object that may be \<open>undefined\<close>: calling a method on it raises.\<close>

definition defined :: "string option \<Rightarrow> exn + string" where
  "defined v = (case v of None \<Rightarrow> Inl TypeError | Some s \<Rightarrow> Inr s)"

text \<open>The defaults of the destructured options, and
  \<open>useHour12 = hour12 ?? /a|A|hh/.test(fmt)\<close>.\<close>

definition optLocale :: "FormatOptions \<Rightarrow> string" where
  "optLocale options = (case locale' options of None \<Rightarrow> ''en-US'' | Some l \<Rightarrow> l)"

definition optTimeZone :: "FormatOptions \<Rightarrow> string" where
  "optTimeZone options = (case timeZone options of None \<Rightarrow> ''UTC'' | Some z \<Rightarrow> z)"

definition optHour12 :: "string \<Rightarrow> FormatOptions \<Rightarrow> bool" where
  "optHour12 fmt options =
     (case hour12 options of None \<Rightarrow> regexTest [''a'', ''A'', ''hh''] fmt | Some b \<Rightarrow> b)"

text \<open>\<open>format(date, fmt = "YYYY-MM-DD HH:mm:ss", options = {})\<close>. The source has no
  \<open>try\<close> here: what the host raises reaches the caller.\<close>

definition format ::
  "host \<Rightarrow> dateInput \<Rightarrow> string option \<Rightarrow> FormatOptions \<Rightarrow> exn + string" where
  "format h date fmtArg options =
     (let fmt = (case fmtArg of None \<Rightarrow> ''YYYY-MM-DD HH:mm:ss'' | Some s \<Rightarrow> s);
          loc = optLocale options;
          timeZone' = optTimeZone options;
          useHour12 = optHour12 fmt options;
          d = newDate h date
      in case d of
           None \<Rightarrow> Inr ''Invalid Date''
         | Some t \<Rightarrow>
      andThen (if timeZone' = ''UTC'' then Inr d else reparse h d timeZone') (\<lambda>tzDate.
      let hour24 = (if timeZone' = ''UTC'' then Some (getUTCHours t)
                    else map_option (getLocal h Hours) tzDate);
          minute = padStart 2 (CHR ''0'') (numberToString
                     (if timeZone' = ''UTC'' then Some (getUTCMinutes t)
                      else map_option (getLocal h Minutes) tzDate));
          second = padStart 2 (CHR ''0'') (numberToString
                     (if timeZone' = ''UTC'' then Some (getUTCSeconds t)
                      else map_option (getLocal h Seconds) tzDate));
          hour12str =
            (if useHour12 then
               padStart 2 (CHR ''0'') (numberToString (Some
                 (case hour24 of None \<Rightarrow> 12
                  | Some x \<Rightarrow> if x mod 12 = 0 then 12 else x mod 12)))
             else padStart 2 (CHR ''0'') (numberToString hour24));
          pm = (case hour24 of None \<Rightarrow> False | Some x \<Rightarrow> 12 \<le> x);
          ampm = (if useHour12 then (if pm then ''PM'' else ''AM'') else []);
          ampmLower = (if useHour12 then (if pm then ''pm'' else ''am'') else [])
      in
      andThen (newDateTimeFormat h loc timeZone' (AllFields useHour12)) (\<lambda>formatter.
      andThen (dtfFormatToParts h formatter d) (\<lambda>parts.
      let values = map_of (rev parts) in
      andThen (newDateTimeFormat h loc timeZone' MonthLong) (\<lambda>monthFormatter.
      andThen (newDateTimeFormat h loc timeZone' MonthShort) (\<lambda>monthShortFormatter.
      andThen (newDateTimeFormat h loc timeZone' WeekdayLong) (\<lambda>dayFormatter.
      andThen (newDateTimeFormat h loc timeZone' WeekdayShort) (\<lambda>dayShortFormatter.
      andThen (dtfFormat h monthFormatter tzDate) (\<lambda>monthName.
      andThen (dtfFormat h monthShortFormatter tzDate) (\<lambda>monthShortName.
      andThen (dtfFormat h dayFormatter tzDate) (\<lambda>dayName.
      andThen (dtfFormat h dayShortFormatter tzDate) (\<lambda>dayShortName.
      andThen (defined (values ''month'')) (\<lambda>monthValue.
      let month = padStart 2 (CHR ''0'') monthValue in
      andThen (defined (values ''year'')) (\<lambda>yearValue.
      let tokenMap =
            [(''YYYY'', values ''year''),
             (''YY'', Some (drop (length yearValue - 2) yearValue)),
             (''MMMM'', Some monthName),
             (''MMM'', Some monthShortName),
             (''MM'', Some month),
             (''DD'', values ''day''),
             (''dddd'', Some dayName),
             (''ddd'', Some dayShortName),
             (''HH'', Some (padStart 2 (CHR ''0'') (numberToString hour24))),
             (''hh'', Some hour12str),
             (''mm'', Some minute),
             (''ss'', Some second),
             (''A'', Some ampm),
             (''a'', Some ampmLower),
             (''Z'', Some (case values ''timeZoneName'' of None \<Rightarrow> [] | Some v \<Rightarrow> v))]
      in Inr (replaceAll tokenRegex (lookupToken tokenMap) fmt)))))))))))))))"

section \<open>Arithmetic and relative time\<close>

datatype TimeUnit = days | hours | minutes | seconds | milliseconds

definition add :: "host \<Rightarrow> dateInput \<Rightarrow> number \<Rightarrow> TimeUnit \<Rightarrow> date" where
  "add h date n unit =
     (let d = newDate h date;
          bump = (\<lambda>f. dateSetLocal h f d (jsAdd (dateGetLocal h f d) n))
      in case unit of
           days \<Rightarrow> bump DayOfMonth
         | hours \<Rightarrow> bump Hours
         | minutes \<Rightarrow> bump Minutes
         | seconds \<Rightarrow> bump Seconds
         | milliseconds \<Rightarrow> bump Milliseconds)"





section \<open>A reference host\<close>

text \<open>
  A small concrete host, used to run the model: its local time zone is UTC, its calendar is
  the proleptic Gregorian one, its only locale is \<open>en-US\<close>, and its zone table is the
  excerpt of the tz database that is in force during 2024 for four zones.
\<close>

definition civilFromDays :: "int \<Rightarrow> int \<times> int \<times> int" where
  "civilFromDays n =
     (let z = n + 719468;
          era = z div 146097;
          doe = z - era * 146097;
          yoe = (doe - doe div 1460 + doe div 36524 - doe div 146096) div 365;
          doy = doe - (365 * yoe + yoe div 4 - yoe div 100);
          mp = (5 * doy + 2) div 153;
          d = doy - (153 * mp + 2) div 5 + 1;
          m = (if mp < 10 then mp + 3 else mp - 9)
      in (if m \<le> 2 then yoe + era * 400 + 1 else yoe + era * 400, m, d))"

definition msPerDay :: int where
  "msPerDay = 86400000"

definition refZones :: "string list" where
  "refZones = [''America/New_York'', ''Asia/Tokyo'', ''Europe/London'', ''UTC'']"

text \<open>Offset from UTC in minutes, and the short zone name, at an instant.\<close>

definition refOffset :: "string \<Rightarrow> int \<Rightarrow> int" where
  "refOffset z t =
     (if z = ''America/New_York'' then
        (if utcTime 2024 3 10 7 0 0 \<le> t \<and> t < utcTime 2024 11 3 6 0 0 then - 240 else - 300)
      else if z = ''Europe/London'' then
        (if utcTime 2024 3 31 1 0 0 \<le> t \<and> t < utcTime 2024 10 27 1 0 0 then 60 else 0)
      else if z = ''Asia/Tokyo'' then 540
      else 0)"

definition refAbbrev :: "string \<Rightarrow> int \<Rightarrow> string" where
  "refAbbrev z t =
     (if z = ''America/New_York'' then (if refOffset z t = - 240 then ''EDT'' else ''EST'')
      else if z = ''Europe/London'' then (if refOffset z t = 60 then ''GMT+1'' else ''GMT'')
      else if z = ''Asia/Tokyo'' then ''GMT+9''
      else ''UTC'')"

definition refClip :: "int \<Rightarrow> date" where
  "refClip t = (if \<bar>t\<bar> \<le> 8640000000000000 then Some t else None)"

text \<open>The civil time of \<open>t\<close> in \<open>z\<close>, without its milliseconds, read as a UTC timestamp.\<close>

definition refWallClock :: "string \<Rightarrow> int \<Rightarrow> date" where
  "refWallClock z t = refClip ((t + refOffset z t * 60000) div 1000 * 1000)"

definition refFullYear :: "int \<Rightarrow> int" where
  "refFullYear t = fst (civilFromDays (t div msPerDay))"

text \<open>\<open>new Date(y, m, d)\<close>: years 0 to 99 mean 1900 to 1999, and the month index wraps.\<close>

definition refLocalDate :: "int \<Rightarrow> int \<Rightarrow> int \<Rightarrow> date" where
  "refLocalDate y m d =
     (let y' = (if 0 \<le> y \<and> y \<le> 99 then 1900 + y else y)
      in refClip ((daysFromCivil (y' + m div 12) (m mod 12 + 1) 1 + d - 1) * msPerDay))"

definition fieldUnit :: "localField \<Rightarrow> int" where
  "fieldUnit f =
     (case f of DayOfMonth \<Rightarrow> msPerDay | Hours \<Rightarrow> 3600000 | Minutes \<Rightarrow> 60000
      | Seconds \<Rightarrow> 1000 | Milliseconds \<Rightarrow> 1)"

definition refGetLocal :: "localField \<Rightarrow> int \<Rightarrow> int" where
  "refGetLocal f t =
     (case f of
        DayOfMonth \<Rightarrow> snd (snd (civilFromDays (t div msPerDay)))
      | Hours \<Rightarrow> t div 3600000 mod 24
      | Minutes \<Rightarrow> t div 60000 mod 60
      | Seconds \<Rightarrow> t div 1000 mod 60
      | Milliseconds \<Rightarrow> t mod 1000)"

definition refSetLocal :: "localField \<Rightarrow> int \<Rightarrow> int \<Rightarrow> date" where
  "refSetLocal f t n = refClip (t + (n - refGetLocal f t) * fieldUnit f)"

definition monthNames :: "string list" where
  "monthNames = [''January'', ''February'', ''March'', ''April'', ''May'', ''June'', ''July'',
     ''August'', ''September'', ''October'', ''November'', ''December'']"

definition weekdayNames :: "string list" where
  "weekdayNames = [''Sunday'', ''Monday'', ''Tuesday'', ''Wednesday'', ''Thursday'', ''Friday'',
     ''Saturday'']"

definition refFormatToParts ::
  "string \<Rightarrow> string \<Rightarrow> dtfStyle \<Rightarrow> int \<Rightarrow> (string \<times> string) list" where
  "refFormatToParts locale z style t =
     (let civil = t + refOffset z t * 60000;
          day = civil div msPerDay;
          ymd = civilFromDays day;
          y = fst ymd;
          m = fst (snd ymd);
          d = snd (snd ymd);
          monthName = monthNames ! nat (m - 1);
          weekdayName = weekdayNames ! nat ((day + 4) mod 7);
          hh = civil div 3600000 mod 24;
          two = (\<lambda>n. padStart 2 (CHR ''0'') (intToString n))
      in case style of
           ShortZoneName \<Rightarrow>
             [(''month'', intToString m), (''literal'', ''/''), (''day'', intToString d),
              (''literal'', ''/''), (''year'', intToString y), (''literal'', '', ''),
              (''timeZoneName'', refAbbrev z t)]
         | AllFields h12 \<Rightarrow>
             [(''weekday'', weekdayName), (''literal'', '', ''), (''month'', two m),
              (''literal'', ''/''), (''day'', two d), (''literal'', ''/''),
              (''year'', intToString y), (''literal'', '', ''),
              (''hour'', two (if h12 then (if hh mod 12 = 0 then 12 else hh mod 12) else hh)),
              (''literal'', '':''), (''minute'', two (civil div 60000 mod 60)),
              (''literal'', '':''), (''second'', two (civil div 1000 mod 60))]
             @ (if h12 then [(''literal'', '' ''),
                                (''dayPeriod'', if hh < 12 then ''AM'' else ''PM'')] else [])
             @ [(''literal'', '' ''), (''timeZoneName'', refAbbrev z t)]
         | MonthLong \<Rightarrow> [(''month'', monthName)]
         | MonthShort \<Rightarrow> [(''month'', take 3 monthName)]
         | WeekdayLong \<Rightarrow> [(''weekday'', weekdayName)]
         | WeekdayShort \<Rightarrow> [(''weekday'', take 3 weekdayName)])"

text \<open>The timestamps this host reads are those of the form \<open>YYYY-MM-DDTHH:mm:ssZ\<close>.\<close>

definition digitsValue :: "string \<Rightarrow> int option" where
  "digitsValue s =
     (if s \<noteq> [] \<and> list_all (\<lambda>c. c \<in> set ''0123456789'') s
      then Some (foldl (\<lambda>a c. 10 * a + (int (of_char c) - 48)) 0 s) else None)"

definition refParseDate :: "string \<Rightarrow> date" where
  "refParseDate s =
     (if length s = 20 \<and> s ! 4 = CHR ''-'' \<and> s ! 7 = CHR ''-'' \<and> s ! 10 = CHR ''T''
         \<and> s ! 13 = CHR '':'' \<and> s ! 16 = CHR '':'' \<and> s ! 19 = CHR ''Z''
      then
        (case (digitsValue (take 4 s), digitsValue (take 2 (drop 5 s)),
               digitsValue (take 2 (drop 8 s)), digitsValue (take 2 (drop 11 s)),
               digitsValue (take 2 (drop 14 s)), digitsValue (take 2 (drop 17 s))) of
           (Some y, Some m, Some d, Some hh, Some mm, Some ss) \<Rightarrow>
             if 1 \<le> m \<and> m \<le> 12 \<and> 1 \<le> d \<and> d \<le> 31 \<and> hh \<le> 23 \<and> mm \<le> 59 \<and> ss \<le> 59
             then Some (utcTime y m d hh mm ss) else None
         | _ \<Rightarrow> None)
      else None)"

text \<open>English relative time with \<open>numeric: "auto"\<close>.\<close>

definition refRelativeFormat :: "string \<Rightarrow> int \<Rightarrow> string \<Rightarrow> string" where
  "refRelativeFormat locale n u =
     (if n = 0 then (if u = ''second'' then ''now'' else if u = ''day'' then ''today''
                     else ''this '' @ u)
      else if u = ''day'' \<and> n = 1 then ''tomorrow''
      else if u = ''day'' \<and> n = - 1 then ''yesterday''
      else
        (let units = intToString \<bar>n\<bar> @ '' '' @ u @ (if \<bar>n\<bar> = 1 then [] else ''s'')
         in if n < 0 then units @ '' ago'' else ''in '' @ units))"

definition refHost :: host where
  "refHost =
     \<lparr>parseDate = refParseDate,
      supportedTimeZones = refZones,
      validTimeZone = (\<lambda>z. z \<in> set refZones),
      validLocale = (\<lambda>l. l = ''en-US''),
      wallClock = refWallClock,
      getFullYear = refFullYear,
      localDate = refLocalDate,
      getLocal = refGetLocal,
      setLocal = refSetLocal,
      formatToParts = refFormatToParts,
      relativeFormat = refRelativeFormat\<rparr>"

section \<open>Properties\<close>

subsection \<open>Basic facts\<close>

lemma andThen_simps [simp]:
  "andThen (Inr x) f = f x"
  "andThen (Inl e) f = Inl e"
  by (simp_all add: andThen_def)

lemma reparse_valid [simp]:
  "validLocale h ''en-US'' \<Longrightarrow> validTimeZone h z \<Longrightarrow>
   reparse h (Some t) z = Inr (wallClock h z t)"
  by (simp add: reparse_def)

lemma reparse_invalid [simp]:
  "\<not> validTimeZone h z \<Longrightarrow> reparse h (Some t) z = Inl RangeError"
  by (simp add: reparse_def)

lemma reparse_None [simp]: "reparse h None z = Inr None"
  by (simp add: reparse_def)

lemma offsetMinutes_same: "offsetMinutes (Some w) (Some w) = Finite 0"
  by (simp add: offsetMinutes_def getTime_def)

lemma utc_flag: "isDST (getTimezoneInfo h date ''UTC'') = False"
  by (simp add: getTimezoneInfo_def getTimezoneInfo_try_def Let_def andThen_def
      split: sum.splits)

lemma refHost_fields [simp]:
  "parseDate refHost = refParseDate"
  "supportedTimeZones refHost = refZones"
  "validTimeZone refHost z = (z \<in> set refZones)"
  "validLocale refHost l = (l = ''en-US'')"
  "wallClock refHost = refWallClock"
  "getFullYear refHost = refFullYear"
  "localDate refHost = refLocalDate"
  "getLocal refHost = refGetLocal"
  "setLocal refHost = refSetLocal"
  "formatToParts refHost = refFormatToParts"
  "relativeFormat refHost = refRelativeFormat"
  by (simp_all add: refHost_def)

lemma newDate_FromDate [simp]: "newDate h (FromDate d) = d"
  by (simp add: newDate_def)

lemma newDate_noon: "newDate h (FromNumber (Finite 1711022400000)) = Some 1711022400000"
  by (simp add: newDate_def timeClip_def jsTrunc_def)

subsection \<open>UTC and unsupported zones\<close>

text \<open>
  Claim C5. The zone "UTC" is neutral. For every instant \<open>t\<close> that the host renders readably
  in UTC, and every year argument: the offset query returns 0, the DST flag is false (in the
  timezone info of \<open>t\<close> and in \<open>isDST\<close>, whatever the clock shows), and the transitions
  query returns no start and no end.
\<close>

theorem utc_neutral:
  assumes "newDate h date = Some t" and "wallClock h ''UTC'' t \<noteq> None"
  shows "getTimezoneOffset h date ''UTC'' = Finite 0
       \<and> isDST (getTimezoneInfo h date ''UTC'') = False
       \<and> isDST_now h now ''UTC'' = False
       \<and> getDSTTransitions h now ''UTC'' yearArg = Some \<lparr>start = None, endDate = None\<rparr>"
proof -
  have off: "getTimezoneOffset h date ''UTC'' = Finite 0"
  proof (cases "validLocale h ''en-US'' \<and> validTimeZone h ''UTC''")
    case True
    from assms(2) obtain w where "wallClock h ''UTC'' t = Some w" by auto
    with True assms(1) show ?thesis
      by (simp add: getTimezoneOffset_def offsetMinutes_same)
  next
    case False
    with assms(1) show ?thesis by (auto simp add: getTimezoneOffset_def reparse_def)
  qed
  have tr: "getDSTTransitions h now ''UTC'' yearArg = Some \<lparr>start = None, endDate = None\<rparr>"
    by (simp add: getDSTTransitions_def)
  from off utc_flag tr show ?thesis by (simp add: isDST_now_def)
qed

theorem utc_neutral_witness:
  "getTimezoneOffset refHost (FromNumber (Finite 1711022400000)) ''UTC'' = Finite 0
   \<and> isDST (getTimezoneInfo refHost (FromNumber (Finite 1711022400000)) ''UTC'') = False
   \<and> isDST_now refHost 0 ''UTC'' = False
   \<and> getDSTTransitions refHost 0 ''UTC'' (Some 2024) = Some \<lparr>start = None, endDate = None\<rparr>"
proof -
  have b: "wallClock refHost ''UTC'' 1711022400000 \<noteq> None"
    by (simp add: refWallClock_def refOffset_def refClip_def)
  show ?thesis by (rule utc_neutral [OF newDate_noon b])
qed

lemma unsupported_zone_info:
  assumes "newDate h date = Some t" and "\<not> validTimeZone h z"
  shows "getTimezoneInfo h date z =
           \<lparr>name = z, offset = Finite 0, isDST = False, abbrev = ''UTC''\<rparr>"
proof -
  have "getTimezoneInfo_try h date z = Inl RangeError"
    using assms
    by (cases "validLocale h ''en-US'' \<and> validTimeZone h ''UTC''")
       (simp_all add: getTimezoneInfo_try_def reparse_def)
  then show ?thesis by (simp add: getTimezoneInfo_def)
qed

text \<open>
  Claim C6. For every instant and every zone id that the host neither accepts nor lists, the
  public queries return their defaults instead of raising: the offset query returns 0, the
  timezone-info query returns the given name with offset 0, no DST and the abbreviation
  "UTC", \<open>isDST\<close> returns false, and the transitions query returns no start and no end.
\<close>

theorem unsupported_zone_defaults:
  assumes "newDate h date = Some t"
    and "\<not> validTimeZone h z"
    and "z \<notin> set (supportedTimeZones h)"
  shows "getTimezoneOffset h date z = Finite 0
       \<and> getTimezoneInfo h date z =
           \<lparr>name = z, offset = Finite 0, isDST = False, abbrev = ''UTC''\<rparr>
       \<and> isDST_now h now z = False
       \<and> getDSTTransitions h now z yearArg = Some \<lparr>start = None, endDate = None\<rparr>"
proof -
  have off: "getTimezoneOffset h date z = Finite 0"
    using assms(1,2)
    by (cases "validLocale h ''en-US'' \<and> validTimeZone h ''UTC''")
       (simp_all add: getTimezoneOffset_def reparse_def)
  have info: "getTimezoneInfo h date z =
           \<lparr>name = z, offset = Finite 0, isDST = False, abbrev = ''UTC''\<rparr>"
    using assms(1,2) by (rule unsupported_zone_info)
  have flag: "isDST_now h now z = False"
    using unsupported_zone_info [OF newDate_FromDate assms(2), of now]
    by (simp add: isDST_now_def)
  have tr: "getDSTTransitions h now z yearArg = Some \<lparr>start = None, endDate = None\<rparr>"
    using assms(3) by (simp add: getDSTTransitions_def Let_def)
  from off info flag tr show ?thesis by simp
qed

theorem unsupported_zone_defaults_witness:
  "getTimezoneOffset refHost (FromNumber (Finite 1711022400000)) ''Invalid/Timezone'' = Finite 0
   \<and> getTimezoneInfo refHost (FromNumber (Finite 1711022400000)) ''Invalid/Timezone'' =
        \<lparr>name = ''Invalid/Timezone'', offset = Finite 0, isDST = False, abbrev = ''UTC''\<rparr>
   \<and> isDST_now refHost 0 ''Invalid/Timezone'' = False
   \<and> getDSTTransitions refHost 0 ''Invalid/Timezone'' (Some 2024) =
        Some \<lparr>start = None, endDate = None\<rparr>"
proof -
  have b: "\<not> validTimeZone refHost ''Invalid/Timezone''"
    by (simp add: refZones_def)
  have c: "''Invalid/Timezone'' \<notin> set (supportedTimeZones refHost)"
    by (simp add: refZones_def)
  show ?thesis by (rule unsupported_zone_defaults [OF newDate_noon b c])
qed

subsection \<open>The New York constants\<close>

text \<open>
  Claim C4. On a host that lists "America/New_York", the transitions query for that zone and
  the year 2024 returns the two literal instants 2024-03-10T07:00:00Z and
  2024-11-03T06:00:00Z, whatever the host's calendar says: nothing but the list of supported
  zones is consulted, so no day is scanned.
\<close>

theorem new_york_2024_literal:
  assumes "''America/New_York'' \<in> set (supportedTimeZones h)"
  shows "getDSTTransitions h now ''America/New_York'' (Some 2024) =
           Some \<lparr>start = Some (Some (utcTime 2024 3 10 7 0 0)),
                 endDate = Some (Some (utcTime 2024 11 3 6 0 0))\<rparr>
       \<and> utcTime 2024 3 10 7 0 0 = 1710054000000
       \<and> utcTime 2024 11 3 6 0 0 = 1730613600000"
  using assms by (simp add: getDSTTransitions_def utcTime_def daysFromCivil_def Let_def)

theorem new_york_2024_literal_witness:
  "getDSTTransitions refHost 0 ''America/New_York'' (Some 2024) =
     Some \<lparr>start = Some (Some (utcTime 2024 3 10 7 0 0)),
           endDate = Some (Some (utcTime 2024 11 3 6 0 0))\<rparr>
   \<and> utcTime 2024 3 10 7 0 0 = 1710054000000
   \<and> utcTime 2024 11 3 6 0 0 = 1730613600000"
proof -
  have a: "''America/New_York'' \<in> set (supportedTimeZones refHost)"
    by (simp add: refZones_def)
  show ?thesis by (rule new_york_2024_literal [OF a])
qed

subsection \<open>Formatting an Invalid Date\<close>

text \<open>
  Claim C8. For every date input that does not denote an instant, \<open>format\<close> returns the
  string "Invalid Date" and raises nothing, whatever the pattern and the options are.
\<close>

theorem format_invalid_date:
  assumes "newDate h date = None"
  shows "format h date fmtArg options = Inr ''Invalid Date''"
  using assms by (simp add: format_def Let_def)

theorem format_invalid_date_witness:
  "format refHost (FromString ''invalid-date'') (Some ''HH:mm'')
     \<lparr>locale' = Some ''xx'', timeZone = Some ''Invalid/Timezone'', hour12 = None\<rparr>
   = Inr ''Invalid Date''"
proof -
  have a: "newDate refHost (FromString ''invalid-date'') = None"
    by (simp add: newDate_def refParseDate_def)
  show ?thesis by (rule format_invalid_date [OF a])
qed

subsection \<open>Subtraction\<close>


subsection \<open>The DST flag\<close>

lemma jsStrictNeq_Finite: "jsStrictNeq x (Finite c) = (x \<noteq> Finite c)"
  by (cases x) simp_all

lemma getTimezoneOffset_valid:
  assumes "newDate h date = Some t" "validTimeZone h z" "validTimeZone h ''UTC''"
    and "validLocale h ''en-US''"
  shows "getTimezoneOffset h date z = offsetMinutes (wallClock h z t) (wallClock h ''UTC'' t)"
  using assms by (simp add: getTimezoneOffset_def)

text \<open>With both zones accepted, the offset query on a \<open>Date\<close> is the offset of its two
  renderings, also when the \<open>Date\<close> is invalid.\<close>

lemma getTimezoneOffset_reparse:
  assumes "validTimeZone h z" "validTimeZone h ''UTC''" "validLocale h ''en-US''"
  shows "\<exists>tzDate utcDate. reparse h d z = Inr tzDate \<and> reparse h d ''UTC'' = Inr utcDate
          \<and> getTimezoneOffset h (FromDate d) z = offsetMinutes tzDate utcDate"
  using assms by (cases d) (simp_all add: getTimezoneOffset_def)

text \<open>Every finite offset is a whole number of milliseconds divided by 60000.\<close>

lemma offset_on_grid:
  assumes "getTimezoneOffset h date z = Finite a"
  shows "\<exists>k::int. a = of_int k / 60000"
proof (cases "andThen (reparse h (newDate h date) ''UTC'') (\<lambda>utcDate.
         andThen (reparse h (newDate h date) z) (\<lambda>tzDate.
         Inr (offsetMinutes tzDate utcDate)))")
  case (Inl e)
  with assms have "a = of_int 0 / 60000" by (simp add: getTimezoneOffset_def)
  then show ?thesis by blast
next
  case (Inr r)
  then obtain tzDate utcDate where r: "r = offsetMinutes tzDate utcDate"
    by (auto simp: andThen_def split: sum.splits)
  from Inr assms have "r = Finite a" by (simp add: getTimezoneOffset_def)
  with r obtain x y where "tzDate = Some x" "utcDate = Some y" "a = (of_int x - of_int y) / 60000"
    by (cases tzDate; cases utcDate) (auto simp: offsetMinutes_def getTime_def)
  then have "a = of_int (x - y) / 60000" by simp
  then show ?thesis by blast
qed

text \<open>On that grid the tolerance of one millionth of a minute separates nothing but equal
  offsets.\<close>

lemma grid_close_iff:
  "(\<bar>of_int k / 60000 - of_int m / 60000 :: rat\<bar> < 1 / 1000000) = (k = m)"
proof
  assume close: "\<bar>of_int k / 60000 - of_int m / 60000 :: rat\<bar> < 1 / 1000000"
  have "of_int k / 60000 - of_int m / 60000 = (of_int (k - m) :: rat) / 60000"
    by (simp add: diff_divide_distrib)
  with close have "\<bar>(of_int (k - m) :: rat) / 60000\<bar> < 1 / 1000000" by simp
  then have "\<bar>of_int (k - m) :: rat\<bar> < 1" by simp
  then have "\<bar>k - m\<bar> < 1" by (metis of_int_abs of_int_less_1_iff)
  then show "k = m" by simp
next
  assume "k = m"
  then show "\<bar>of_int k / 60000 - of_int m / 60000 :: rat\<bar> < 1 / 1000000" by simp
qed

lemma new_york_info:
  assumes "newDate h date = Some t"
    and "validTimeZone h ''America/New_York''"
    and "validTimeZone h ''UTC''"
    and "validLocale h ''en-US''"
  shows "\<exists>a. getTimezoneInfo h date ''America/New_York'' =
           \<lparr>name = ''America/New_York'',
            offset = getTimezoneOffset h date ''America/New_York'',
            isDST = (getTimezoneOffset h date ''America/New_York'' \<noteq> Finite (- 300)),
            abbrev = a\<rparr>"
  using assms
  by (simp add: getTimezoneInfo_def getTimezoneInfo_try_def getTimezoneOffset_valid
      newDateTimeFormat_def dtfFormatToParts_def Let_def jsStrictNeq_Finite)

lemma general_info:
  assumes "newDate h date = Some t"
    and "z \<noteq> ''UTC''" and "z \<noteq> ''America/New_York''"
    and "validTimeZone h z" and "validTimeZone h ''UTC''" and "validLocale h ''en-US''"
  shows "isDST (getTimezoneInfo h date z) =
           (jsLess (jsAbs (jsSub (getTimezoneOffset h date z)
              (jsMax (getTimezoneOffset h (FromDate (localDate h (getFullYear h t) 0 1)) z)
                     (getTimezoneOffset h (FromDate (localDate h (getFullYear h t) 6 1)) z))))
              (Finite (1 / 1000000))
            \<and> jsStrictNeq
                (getTimezoneOffset h (FromDate (localDate h (getFullYear h t) 0 1)) z)
                (getTimezoneOffset h (FromDate (localDate h (getFullYear h t) 6 1)) z))"
proof -
  let ?jan = "localDate h (getFullYear h t) 0 1"
  let ?jul = "localDate h (getFullYear h t) 6 1"
  from getTimezoneOffset_reparse [OF assms(4,5,6), of ?jan] obtain janTz janUtc where
    jan: "reparse h ?jan z = Inr janTz" "reparse h ?jan ''UTC'' = Inr janUtc"
      "getTimezoneOffset h (FromDate ?jan) z = offsetMinutes janTz janUtc" by blast
  from getTimezoneOffset_reparse [OF assms(4,5,6), of ?jul] obtain julTz julUtc where
    jul: "reparse h ?jul z = Inr julTz" "reparse h ?jul ''UTC'' = Inr julUtc"
      "getTimezoneOffset h (FromDate ?jul) z = offsetMinutes julTz julUtc" by blast
  show ?thesis
    using assms jan jul
    by (simp add: getTimezoneInfo_def getTimezoneInfo_try_def getTimezoneOffset_valid
        localDateOfYear_def newDateTimeFormat_def dtfFormatToParts_def Let_def)
qed

text \<open>
  Claim C1. For every instant \<open>t\<close> and every zone other than "UTC" and "America/New_York"
  that the host accepts: with \<open>janOffset\<close> and \<open>julOffset\<close> the zone's offsets at January 1
  and July 1 of the year of \<open>t\<close>, and \<open>cur\<close> its offset at \<open>t\<close>, the DST flag is false when
  the two reference offsets are equal, and otherwise it is true exactly when \<open>cur\<close> is within
  one millionth of a minute of the larger of the two. When the three offsets are finite
  numbers this says: the flag is true exactly when the reference offsets differ and \<open>cur\<close>
  equals the larger one.
\<close>

theorem general_dst_heuristic:
  assumes "newDate h date = Some t"
    and "z \<noteq> ''UTC''" and "z \<noteq> ''America/New_York''"
    and "validTimeZone h z" and "validTimeZone h ''UTC''" and "validLocale h ''en-US''"
    and "cur = getTimezoneOffset h date z"
    and "janOffset = getTimezoneOffset h (FromDate (localDate h (getFullYear h t) 0 1)) z"
    and "julOffset = getTimezoneOffset h (FromDate (localDate h (getFullYear h t) 6 1)) z"
  shows "isDST (getTimezoneInfo h date z) =
           (if jsStrictNeq janOffset julOffset
            then jsLess (jsAbs (jsSub cur (jsMax janOffset julOffset))) (Finite (1 / 1000000))
            else False)
       \<and> (cur = Finite a \<and> janOffset = Finite b \<and> julOffset = Finite c \<longrightarrow>
            isDST (getTimezoneInfo h date z) = (if b = c then False else a = max b c))"
proof -
  have flag: "isDST (getTimezoneInfo h date z) =
           (jsLess (jsAbs (jsSub cur (jsMax janOffset julOffset))) (Finite (1 / 1000000))
            \<and> jsStrictNeq janOffset julOffset)"
    unfolding assms(7,8,9) by (rule general_info [OF assms(1-6)])
  have exact: "isDST (getTimezoneInfo h date z) = (if b = c then False else a = max b c)"
    if fin: "cur = Finite a" "janOffset = Finite b" "julOffset = Finite c"
  proof -
    from fin assms(7,8,9) obtain k m n :: int where
      grid: "a = of_int k / 60000" "b = of_int m / 60000" "c = of_int n / 60000"
      by (metis offset_on_grid)
    have mx: "max b c = of_int (max m n) / 60000"
      using grid by (simp add: max_def divide_le_cancel)
    have "(\<bar>a - max b c\<bar> < 1 / 1000000) = (k = max m n)"
      unfolding grid(1) mx by (rule grid_close_iff)
    also have "(k = max m n) = (a = max b c)"
      unfolding grid(1) mx by simp
    finally have "(\<bar>a - max b c\<bar> < 1 / 1000000) = (a = max b c)" .
    with flag fin show ?thesis by auto
  qed
  from flag exact show ?thesis by auto
qed

lemma london_july_offsets:
  "newDate refHost (FromString ''2024-07-15T12:00:00Z'') = Some 1721044800000"
  "getTimezoneOffset refHost (FromString ''2024-07-15T12:00:00Z'') ''Europe/London'' = Finite 60"
  "getTimezoneOffset refHost (FromDate (localDate refHost (getFullYear refHost 1721044800000) 0 1))
     ''Europe/London'' = Finite 0"
  "getTimezoneOffset refHost (FromDate (localDate refHost (getFullYear refHost 1721044800000) 6 1))
     ''Europe/London'' = Finite 60"
  by code_simp+

theorem general_dst_heuristic_witness:
  "isDST (getTimezoneInfo refHost (FromString ''2024-07-15T12:00:00Z'') ''Europe/London'') = True
   \<and> getTimezoneOffset refHost (FromString ''2024-07-15T12:00:00Z'') ''Europe/London'' = Finite 60"
proof -
  have zones: "''Europe/London'' \<noteq> ''UTC''" "''Europe/London'' \<noteq> ''America/New_York''"
    "validTimeZone refHost ''Europe/London''" "validTimeZone refHost ''UTC''"
    "validLocale refHost ''en-US''"
    by (simp_all add: refZones_def)
  from general_dst_heuristic [OF london_july_offsets(1) zones
      london_july_offsets(2) [symmetric] london_july_offsets(3) [symmetric]
      london_july_offsets(4) [symmetric], of 60 0 60]
  show ?thesis using london_july_offsets(2) by simp
qed

text \<open>
  Claim C3. On a host that accepts "America/New_York", "UTC" and the locale en-US, for every
  instant the timezone-info query reports for New York the computed offset, and its DST flag
  is true exactly when that offset differs from -300 minutes. On the reference host, at
  2024-03-10T06:59:59Z the offset is -300 and the flag is false, and at 2024-03-10T07:00:00Z
  the offset is -240 and the flag is true.
\<close>

theorem new_york_flag:
  assumes "newDate h date = Some t"
    and "validTimeZone h ''America/New_York''"
    and "validTimeZone h ''UTC''"
    and "validLocale h ''en-US''"
  shows "offset (getTimezoneInfo h date ''America/New_York'') =
           getTimezoneOffset h date ''America/New_York''
       \<and> isDST (getTimezoneInfo h date ''America/New_York'') =
           (getTimezoneOffset h date ''America/New_York'' \<noteq> Finite (- 300))
       \<and> getTimezoneInfo refHost (FromString ''2024-03-10T06:59:59Z'') ''America/New_York'' =
           \<lparr>name = ''America/New_York'', offset = Finite (- 300), isDST = False,
            abbrev = ''EST''\<rparr>
       \<and> getTimezoneInfo refHost (FromString ''2024-03-10T07:00:00Z'') ''America/New_York'' =
           \<lparr>name = ''America/New_York'', offset = Finite (- 240), isDST = True,
            abbrev = ''EDT''\<rparr>"
proof -
  from new_york_info [OF assms] obtain a where
    "getTimezoneInfo h date ''America/New_York'' =
       \<lparr>name = ''America/New_York'',
        offset = getTimezoneOffset h date ''America/New_York'',
        isDST = (getTimezoneOffset h date ''America/New_York'' \<noteq> Finite (- 300)),
        abbrev = a\<rparr>" ..
  then have gen: "offset (getTimezoneInfo h date ''America/New_York'') =
           getTimezoneOffset h date ''America/New_York''
       \<and> isDST (getTimezoneInfo h date ''America/New_York'') =
           (getTimezoneOffset h date ''America/New_York'' \<noteq> Finite (- 300))"
    by simp
  have before: "getTimezoneInfo refHost (FromString ''2024-03-10T06:59:59Z'') ''America/New_York'' =
           \<lparr>name = ''America/New_York'', offset = Finite (- 300), isDST = False,
            abbrev = ''EST''\<rparr>"
    by code_simp
  have after: "getTimezoneInfo refHost (FromString ''2024-03-10T07:00:00Z'') ''America/New_York'' =
           \<lparr>name = ''America/New_York'', offset = Finite (- 240), isDST = True,
            abbrev = ''EDT''\<rparr>"
    by code_simp
  from gen before after show ?thesis by simp
qed

lemma new_york_spring_instant:
  "newDate refHost (FromString ''2024-03-10T07:00:00Z'') = Some 1710054000000"
  "getTimezoneOffset refHost (FromString ''2024-03-10T07:00:00Z'') ''America/New_York'' =
     Finite (- 240)"
  by code_simp+

theorem new_york_flag_witness:
  "isDST (getTimezoneInfo refHost (FromString ''2024-03-10T07:00:00Z'') ''America/New_York'')
   \<and> offset (getTimezoneInfo refHost (FromString ''2024-03-10T07:00:00Z'') ''America/New_York'')
       = Finite (- 240)"
proof -
  have zones: "validTimeZone refHost ''America/New_York''" "validTimeZone refHost ''UTC''"
    "validLocale refHost ''en-US''"
    by (simp_all add: refZones_def)
  from new_york_flag [OF new_york_spring_instant(1) zones]
  show ?thesis by (simp add: new_york_spring_instant(2))
qed

subsection \<open>The token formatter\<close>

text \<open>In a list of alternatives written longest first, the first alternative that matches is
  a longest one.\<close>

lemma find_first_longest:
  assumes "sorted_wrt (\<lambda>a b. length b \<le> length a) alts"
    and "find P alts = Some tk"
  shows "tk \<in> set alts \<and> P tk \<and> (\<forall>tk' \<in> set alts. P tk' \<longrightarrow> length tk' \<le> length tk)"
  using assms
proof (induction alts)
  case Nil
  then show ?case by simp
next
  case (Cons a alts)
  show ?case
  proof (cases "P a")
    case True
    with Cons.prems show ?thesis by auto
  next
    case False
    with Cons.prems have "find P alts = Some tk" by simp
    moreover from Cons.prems have "sorted_wrt (\<lambda>a b. length b \<le> length a) alts" by simp
    ultimately have
      "tk \<in> set alts \<and> P tk \<and> (\<forall>tk' \<in> set alts. P tk' \<longrightarrow> length tk' \<le> length tk)"
      by (rule Cons.IH [rotated])
    with False show ?thesis by auto
  qed
qed

lemma tokenRegex_descending: "sorted_wrt (\<lambda>a b. length b \<le> length a) tokenRegex"
  by (simp add: tokenRegex_def)

lemma no_match_copy: "\<not> regexTest alts s \<Longrightarrow> replaceAll alts f s = s"
  by (induction s) auto

lemma replace_year_pattern:
  "replaceAll tokenRegex f ''YYYY-YY'' = f ''YYYY'' @ ''-'' @ f ''YY''"
  by (simp add: matchAt_def tokenRegex_def startsWith_def)

lemma andThen_InrE:
  assumes "andThen m f = Inr r"
  obtains x where "m = Inr x" "f x = Inr r"
  using assms by (cases m) (simp_all add: andThen_def)

lemma defined_Inr [simp]: "(defined v = Inr s) = (v = Some s)"
  by (cases v) (simp_all add: defined_def)

lemma newDateTimeFormat_Inr [simp]:
  "(newDateTimeFormat h l z s = Inr f) = (validLocale h l \<and> validTimeZone h z \<and> f = (l, z, s))"
  by (auto simp: newDateTimeFormat_def)

lemma dtfFormatToParts_Some [simp]:
  "dtfFormatToParts h (l, z, s) (Some t) = Inr (formatToParts h l z s t)"
  by (simp add: dtfFormatToParts_def)

text \<open>Whatever \<open>format\<close> returns for a valid date is the pattern with its tokens replaced
  through a token map whose year entries come from the host's year part.\<close>

lemma format_Inr:
  assumes "format h date (Some p) options = Inr r" and "newDate h date = Some t"
  shows "\<exists>tokenMap yearValue.
          r = replaceAll tokenRegex (lookupToken tokenMap) p \<and>
          map_of (rev (formatToParts h (optLocale options) (optTimeZone options)
                        (AllFields (optHour12 p options)) t)) ''year'' = Some yearValue \<and>
          map_of tokenMap ''YYYY'' = Some (Some yearValue) \<and>
          map_of tokenMap ''YY'' = Some (Some (drop (length yearValue - 2) yearValue))"
  using assms
  apply (simp add: format_def Let_def)
  apply (elim andThen_InrE)
  apply (simp split del: if_split)
  apply (rule exI, rule conjI, erule sym)
  apply simp
  done

lemma format_no_tokens:
  assumes "format h date (Some p) options = Inr r" and "newDate h date = Some t"
    and "\<not> regexTest tokenRegex p"
  shows "r = p"
  using format_Inr [OF assms(1,2)] assms(3) by (auto simp: no_match_copy)

lemma format_year_pattern:
  assumes "format h date (Some ''YYYY-YY'') options = Inr r" and "newDate h date = Some t"
    and "map_of (rev (formatToParts h (optLocale options) (optTimeZone options)
                        (AllFields (optHour12 ''YYYY-YY'' options)) t)) ''year'' = Some ''2024''"
  shows "r = ''2024-24''"
proof -
  from format_Inr [OF assms(1,2)] assms(3) obtain tokenMap where
    r: "r = replaceAll tokenRegex (lookupToken tokenMap) ''YYYY-YY''"
    and m: "map_of tokenMap ''YYYY'' = Some (Some ''2024'')"
       "map_of tokenMap ''YY'' = Some (Some (drop (length ''2024'' - 2) ''2024''))"
    by auto
  from m have "lookupToken tokenMap ''YYYY'' = ''2024''" "lookupToken tokenMap ''YY'' = ''24''"
    by (simp_all add: lookupToken_def)
  moreover from r have "r = lookupToken tokenMap ''YYYY'' @ ''-'' @ lookupToken tokenMap ''YY''"
    by (simp only: replace_year_pattern)
  ultimately show ?thesis by simp
qed

text \<open>
  Claim C7. The token formatter matches tokens longest first and copies everything else: the
  token matched at a position is a longest token that starts there (so \<open>YYYY\<close> is matched
  whole, never as \<open>YY\<close> twice); a character where no token starts is copied; whatever
  \<open>format\<close> returns for a valid date is its pattern with the tokens replaced, and a pattern
  in which no token occurs is returned verbatim; and when the host renders the year as
  "2024", the pattern "YYYY-YY" yields "2024-24".
\<close>

theorem token_longest_match:
  "(matchAt tokenRegex s = Some tk \<longrightarrow>
      tk \<in> set tokenRegex \<and> startsWith tk s \<and>
      (\<forall>tk' \<in> set tokenRegex. startsWith tk' s \<longrightarrow> length tk' \<le> length tk))
   \<and> matchAt tokenRegex (''YYYY'' @ rest) = Some ''YYYY''
   \<and> (matchAt tokenRegex (c # cs) = None \<longrightarrow>
        replaceAll tokenRegex f (c # cs) = c # replaceAll tokenRegex f cs)
   \<and> (newDate h date = Some t \<and> format h date (Some p) options = Inr r \<longrightarrow>
        (\<exists>tokenMap. r = replaceAll tokenRegex (lookupToken tokenMap) p) \<and>
        (\<not> regexTest tokenRegex p \<longrightarrow> r = p))
   \<and> (newDate h date = Some t \<and> format h date (Some ''YYYY-YY'') options = Inr r' \<and>
        map_of (rev (formatToParts h (optLocale options) (optTimeZone options)
                       (AllFields (optHour12 ''YYYY-YY'' options)) t)) ''year'' = Some ''2024''
        \<longrightarrow> r' = ''2024-24'')"
proof -
  have longest: "matchAt tokenRegex s = Some tk \<longrightarrow>
      tk \<in> set tokenRegex \<and> startsWith tk s \<and>
      (\<forall>tk' \<in> set tokenRegex. startsWith tk' s \<longrightarrow> length tk' \<le> length tk)"
    unfolding matchAt_def using find_first_longest [OF tokenRegex_descending] by blast
  have year: "matchAt tokenRegex (''YYYY'' @ rest) = Some ''YYYY''"
    by (simp add: matchAt_def tokenRegex_def startsWith_def)
  have copy: "matchAt tokenRegex (c # cs) = None \<longrightarrow>
        replaceAll tokenRegex f (c # cs) = c # replaceAll tokenRegex f cs"
    by simp
  have fmt: "newDate h date = Some t \<and> format h date (Some p) options = Inr r \<longrightarrow>
        (\<exists>tokenMap. r = replaceAll tokenRegex (lookupToken tokenMap) p) \<and>
        (\<not> regexTest tokenRegex p \<longrightarrow> r = p)"
    using format_Inr [of h date p options r t] format_no_tokens [of h date p options r t]
    by blast
  have ex: "newDate h date = Some t \<and> format h date (Some ''YYYY-YY'') options = Inr r' \<and>
        map_of (rev (formatToParts h (optLocale options) (optTimeZone options)
                       (AllFields (optHour12 ''YYYY-YY'' options)) t)) ''year'' = Some ''2024''
        \<longrightarrow> r' = ''2024-24''"
    using format_year_pattern [of h date options r' t] by blast
  from longest year copy fmt ex show ?thesis by blast
qed

lemma format_examples:
  "newDate refHost (FromString ''2024-03-21T12:00:00Z'') = Some 1711022400000"
  "\<exists>r. format refHost (FromString ''2024-03-21T12:00:00Z'') (Some ''YYYY-YY'')
     \<lparr>locale' = None, timeZone = None, hour12 = None\<rparr> = Inr r"
  "map_of (rev (formatToParts refHost
      (optLocale \<lparr>locale' = None, timeZone = None, hour12 = None\<rparr>)
      (optTimeZone \<lparr>locale' = None, timeZone = None, hour12 = None\<rparr>)
      (AllFields (optHour12 ''YYYY-YY'' \<lparr>locale' = None, timeZone = None, hour12 = None\<rparr>))
      1711022400000)) ''year'' = Some ''2024''"
  "\<exists>r. format refHost (FromString ''2024-03-21T12:00:00Z'') (Some ''Hello World'')
     \<lparr>locale' = None, timeZone = None, hour12 = None\<rparr> = Inr r"
  "\<not> regexTest tokenRegex ''Hello World''"
proof -
  have "format refHost (FromString ''2024-03-21T12:00:00Z'') (Some ''YYYY-YY'')
     \<lparr>locale' = None, timeZone = None, hour12 = None\<rparr> = Inr ''2024-24''"
    by code_simp
  then show "\<exists>r. format refHost (FromString ''2024-03-21T12:00:00Z'') (Some ''YYYY-YY'')
     \<lparr>locale' = None, timeZone = None, hour12 = None\<rparr> = Inr r" ..
  have "format refHost (FromString ''2024-03-21T12:00:00Z'') (Some ''Hello World'')
     \<lparr>locale' = None, timeZone = None, hour12 = None\<rparr> = Inr ''Hello World''"
    by code_simp
  then show "\<exists>r. format refHost (FromString ''2024-03-21T12:00:00Z'') (Some ''Hello World'')
     \<lparr>locale' = None, timeZone = None, hour12 = None\<rparr> = Inr r" ..
qed code_simp+

theorem token_longest_match_witness:
  "format refHost (FromString ''2024-03-21T12:00:00Z'') (Some ''YYYY-YY'')
     \<lparr>locale' = None, timeZone = None, hour12 = None\<rparr> = Inr ''2024-24''
   \<and> format refHost (FromString ''2024-03-21T12:00:00Z'') (Some ''Hello World'')
     \<lparr>locale' = None, timeZone = None, hour12 = None\<rparr> = Inr ''Hello World''"
proof -
  from format_examples(2) obtain r' where
    r': "format refHost (FromString ''2024-03-21T12:00:00Z'') (Some ''YYYY-YY'')
           \<lparr>locale' = None, timeZone = None, hour12 = None\<rparr> = Inr r'" ..
  from format_examples(4) obtain r where
    r: "format refHost (FromString ''2024-03-21T12:00:00Z'') (Some ''Hello World'')
           \<lparr>locale' = None, timeZone = None, hour12 = None\<rparr> = Inr r" ..
  from token_longest_match [where h = refHost and date = "FromString ''2024-03-21T12:00:00Z''"
      and t = 1711022400000 and p = "''Hello World''" and r = r and r' = r'
      and options = "\<lparr>locale' = None, timeZone = None, hour12 = None\<rparr>"]
    format_examples(1,3,5) r r'
  have "r = ''Hello World''" "r' = ''2024-24''" by blast+
  with r r' show ?thesis by simp
qed

subsection \<open>The clock\<close>



subsection \<open>The day-by-day scan\<close>

text \<open>Division of an integer between two multiples of the divisor.\<close>

lemma div_eqI:
  fixes x k q :: int
  assumes "0 < k" "q * k \<le> x" "x < q * k + k"
  shows "x div k = q"
proof -
  have "x div k = (x - q * k + q * k) div k" by simp
  also have "\<dots> = q + (x - q * k) div k"
    using assms(1) by (simp only: div_mult_self1)
  also have "(x - q * k) div k = 0"
    using assms by (intro div_pos_pos_trivial) simp_all
  finally show ?thesis by simp
qed

lemma civilFromDays_year:
  assumes "(n + 719468) div 146097 = era"
    and "doe = n + 719468 - era * 146097"
    and "(doe - doe div 1460 + doe div 36524 - doe div 146096) div 365 = yoe"
    and "doy = doe - (365 * yoe + yoe div 4 - yoe div 100)"
    and "mp = (5 * doy + 2) div 153"
  shows "fst (civilFromDays n) =
           (if (if mp < 10 then mp + 3 else mp - 9) \<le> 2 then yoe + era * 400 + 1
            else yoe + era * 400)"
  unfolding civilFromDays_def Let_def assms(1) assms(2) [symmetric] assms(3)
    assms(4) [symmetric] assms(5) [symmetric] fst_conv
  by (rule refl)

lemma year_2024_days:
  assumes "19723 \<le> n" "n \<le> 20088"
  shows "fst (civilFromDays n) = 2024"
proof -
  define doe where "doe = n + 719468 - 5 * 146097"
  have era: "(n + 719468) div 146097 = 5"
    using assms by (intro div_eqI) simp_all
  have doe: "8706 \<le> doe" "doe \<le> 9071" using assms by (simp_all add: doe_def)
  have c1: "doe div 36524 = 0" "doe div 146096 = 0"
    using doe by (simp_all add: div_pos_pos_trivial)
  consider (a) "doe \<le> 8759" | (b) "8760 \<le> doe" "doe \<le> 8765" | (c) "8766 \<le> doe"
    by linarith
  then show ?thesis
  proof cases
    case a
    have q: "doe div 1460 = 5" using doe a by (intro div_eqI) simp_all
    have yoe: "(doe - doe div 1460 + doe div 36524 - doe div 146096) div 365 = 23"
      unfolding q c1 using doe a by (intro div_eqI) simp_all
    have "1532 div 153 \<le> (5 * (doe - (365 * 23 + 23 div 4 - 23 div 100)) + 2) div (153::int)"
      using doe by (intro zdiv_mono1) simp_all
    then have mp: "\<not> (5 * (doe - (365 * 23 + 23 div 4 - 23 div 100)) + 2) div 153 < (10::int)"
      by simp
    have "(5 * (doe - (365 * 23 + 23 div 4 - 23 div 100)) + 2) div (153::int) \<le> 1827 div 153"
      using a by (intro zdiv_mono1) simp_all
    then have mp': "(5 * (doe - (365 * 23 + 23 div 4 - 23 div 100)) + 2) div 153 \<le> (11::int)"
      by simp
    show ?thesis
      using civilFromDays_year [OF era doe_def yoe refl refl] mp mp' by simp
  next
    case b
    have q: "doe div 1460 = 6" using b by (intro div_eqI) simp_all
    have yoe: "(doe - doe div 1460 + doe div 36524 - doe div 146096) div 365 = 23"
      unfolding q c1 using b by (intro div_eqI) simp_all
    have "1532 div 153 \<le> (5 * (doe - (365 * 23 + 23 div 4 - 23 div 100)) + 2) div (153::int)"
      using doe by (intro zdiv_mono1) simp_all
    then have mp: "\<not> (5 * (doe - (365 * 23 + 23 div 4 - 23 div 100)) + 2) div 153 < (10::int)"
      by simp
    have "(5 * (doe - (365 * 23 + 23 div 4 - 23 div 100)) + 2) div (153::int) \<le> 1827 div 153"
      using b by (intro zdiv_mono1) simp_all
    then have mp': "(5 * (doe - (365 * 23 + 23 div 4 - 23 div 100)) + 2) div 153 \<le> (11::int)"
      by simp
    show ?thesis
      using civilFromDays_year [OF era doe_def yoe refl refl] mp mp' by simp
  next
    case c
    have q: "doe div 1460 = 6" using doe c by (intro div_eqI) simp_all
    have yoe: "(doe - doe div 1460 + doe div 36524 - doe div 146096) div 365 = 24"
      unfolding q c1 using doe c by (intro div_eqI) simp_all
    have "(5 * (doe - (365 * 24 + 24 div 4 - 24 div 100)) + 2) div (153::int) \<le> 1527 div 153"
      using doe by (intro zdiv_mono1) simp_all
    then have mp: "(5 * (doe - (365 * 24 + 24 div 4 - 24 div 100)) + 2) div 153 < (10::int)"
      by simp
    have "2 div 153 \<le> (5 * (doe - (365 * 24 + 24 div 4 - 24 div 100)) + 2) div (153::int)"
      using c by (intro zdiv_mono1) simp_all
    then have mp': "0 \<le> (5 * (doe - (365 * 24 + 24 div 4 - 24 div 100)) + 2) div (153::int)"
      by simp
    show ?thesis
      using civilFromDays_year [OF era doe_def yoe refl refl] mp mp' by simp
  qed
qed


lemma refFullYear_2024:
  assumes "1704067200000 \<le> t" "t < 1735689600000"
  shows "refFullYear t = 2024"
proof -
  have "1704067200000 div 86400000 \<le> t div (86400000::int)"
    using assms(1) by (intro zdiv_mono1) simp_all
  moreover have "t div (86400000::int) \<le> 1735689599999 div 86400000"
    using assms(2) by (intro zdiv_mono1) simp_all
  ultimately show ?thesis
    by (simp add: refFullYear_def msPerDay_def year_2024_days)
qed

lemma jsTrunc_of_int [simp]: "jsTrunc (of_int k) = k"
  by (simp add: jsTrunc_def)

text \<open>On the reference host the offset query returns the zone table's offset.\<close>

lemma refHost_offset:
  assumes "newDate refHost date = Some t" and "0 \<le> t" and "t \<le> 2000000000000"
    and "z \<in> set refZones"
  shows "getTimezoneOffset refHost date z = Finite (of_int (refOffset z t))"
proof -
  have utc: "''UTC'' \<in> set refZones" by (simp add: refZones_def)
  have off: "- 300 \<le> refOffset z t" "refOffset z t \<le> 540"
    by (simp_all add: refOffset_def)
  have shift: "(t + refOffset z t * 60000) div 1000 = refOffset z t * 60 + t div 1000"
  proof -
    have "t + refOffset z t * 60000 = t + (refOffset z t * 60) * 1000" by simp
    then show ?thesis by (simp only: div_mult_self1)
  qed
  have t1000: "0 \<le> t div 1000" "t div 1000 \<le> 2000000000"
  proof -
    show "0 \<le> t div 1000" using assms(2) by (simp add: pos_imp_zdiv_nonneg_iff)
    have "t div 1000 \<le> 2000000000000 div (1000::int)"
      using assms(3) by (intro zdiv_mono1) simp_all
    then show "t div 1000 \<le> 2000000000" by simp
  qed
  have wz: "refWallClock z t = Some ((refOffset z t * 60 + t div 1000) * 1000)"
    unfolding refWallClock_def shift refClip_def using off t1000 by simp
  have wu: "refWallClock ''UTC'' t = Some (t div 1000 * 1000)"
    unfolding refWallClock_def refClip_def using t1000 by (simp add: refOffset_def)
  have "offsetMinutes (refWallClock z t) (refWallClock ''UTC'' t) =
          Finite (of_int (refOffset z t * 60000) / 60000)"
    unfolding wz wu offsetMinutes_def getTime_def
    by (simp add: algebra_simps)
  then show ?thesis
    using getTimezoneOffset_valid [OF assms(1), of z] assms(4) utc by simp
qed


lemma london_times:
  "utcTime 2024 3 31 1 0 0 = 1711846800000"
  "utcTime 2024 10 27 1 0 0 = 1729990800000"
  by (simp_all add: utcTime_def daysFromCivil_def)

lemma london_refOffset:
  "refOffset ''Europe/London'' t = (if 1711846800000 \<le> t \<and> t < 1729990800000 then 60 else 0)"
  by (simp add: refOffset_def london_times)

lemma refLocalDate_2024:
  "refLocalDate 2024 0 1 = Some 1704067200000"
  "refLocalDate 2024 6 1 = Some 1719792000000"
  "refLocalDate 2024 11 31 = Some 1735603200000"
  by (simp_all add: refLocalDate_def daysFromCivil_def msPerDay_def refClip_def)

text \<open>During 2024 the reference host flags London exactly between the two transitions.\<close>

lemma london_flag:
  assumes "newDate refHost date = Some t"
    and "1704067200000 \<le> t" and "t < 1735689600000"
  shows "isDST (getTimezoneInfo refHost date ''Europe/London'') =
           (1711846800000 \<le> t \<and> t < 1729990800000)"
proof -
  have zones: "''Europe/London'' \<noteq> ''UTC''" "''Europe/London'' \<noteq> ''America/New_York''"
    "validTimeZone refHost ''Europe/London''" "validTimeZone refHost ''UTC''"
    "validLocale refHost ''en-US''"
    by (simp_all add: refZones_def)
  have london: "''Europe/London'' \<in> set refZones" by (simp add: refZones_def)
  have year: "getFullYear refHost t = 2024"
    using assms(2,3) by (simp add: refFullYear_2024)
  have cur: "getTimezoneOffset refHost date ''Europe/London'' =
               Finite (of_int (refOffset ''Europe/London'' t))"
    using assms by (intro refHost_offset london) simp_all
  have jan: "getTimezoneOffset refHost (FromDate (Some 1704067200000)) ''Europe/London'' =
               Finite (of_int (refOffset ''Europe/London'' 1704067200000))"
    by (intro refHost_offset london) simp_all
  have jul: "getTimezoneOffset refHost (FromDate (Some 1719792000000)) ''Europe/London'' =
               Finite (of_int (refOffset ''Europe/London'' 1719792000000))"
    by (intro refHost_offset london) simp_all
  show ?thesis
    unfolding general_info [OF assms(1) zones] year
    by (simp add: refLocalDate_2024 cur jan jul london_refOffset)
qed

lemma scan_done:
  assumes "e < t"
  shows "scanDays h z (Some t) (Some e) acc = Some acc"
  using assms by (subst scanDays.simps) (simp add: dateLessEq_def getTime_def)

lemma refHost_next_day:
  assumes "\<bar>t + 86400000\<bar> \<le> 8640000000000000"
  shows "dateSetLocal refHost DayOfMonth (Some t)
           (jsAdd (dateGetLocal refHost DayOfMonth (Some t)) (Finite 1)) = Some (t + 86400000)"
proof -
  have "jsAdd (dateGetLocal refHost DayOfMonth (Some t)) (Finite 1) =
          Finite (of_int (refGetLocal DayOfMonth t + 1))"
    by (simp add: dateGetLocal_def)
  then have "dateSetLocal refHost DayOfMonth (Some t)
           (jsAdd (dateGetLocal refHost DayOfMonth (Some t)) (Finite 1)) =
         refSetLocal DayOfMonth t (refGetLocal DayOfMonth t + 1)"
    by (simp only: dateSetLocal_def option.case number.case jsTrunc_of_int refHost_fields)
  then show ?thesis
    using assms
    by (simp add: refSetLocal_def fieldUnit_def msPerDay_def refClip_def)
qed

lemma dateLessEq_Some [simp]: "dateLessEq (Some a) (Some b) = (a \<le> b)"
  by (simp add: dateLessEq_def getTime_def)

lemma day_before:
  assumes "\<bar>of_int t - 86400000 :: rat\<bar> \<le> 8640000000000000"
  shows "newDate h (FromNumber (jsSub (getTime (Some t)) (Finite 86400000))) = Some (t - 86400000)"
proof -
  have eq: "(of_int t :: rat) - 86400000 = of_int (t - 86400000)" by simp
  have "jsTrunc ((of_int t :: rat) - 86400000) = t - 86400000"
    unfolding eq by (rule jsTrunc_of_int)
  then show ?thesis
    using assms by (simp add: newDate_def getTime_def timeClip_def)
qed

lemma london_scan_first:
  "scanDays refHost ''Europe/London'' (Some 1704067200000) (Some 1735603200000) [] =
   scanDays refHost ''Europe/London'' (Some 1704153600000) (Some 1735603200000)
     [Some 1704067200000]"
  by (subst scanDays.simps) (simp add: refHost_next_day)

lemma london_scan_step:
  assumes "1704153600000 \<le> t" and "t \<le> 1735603200000"
  shows "scanDays refHost ''Europe/London'' (Some t) (Some 1735603200000) acc =
         scanDays refHost ''Europe/London'' (Some (t + 86400000)) (Some 1735603200000)
           (if acc = [] \<or>
               (1711846800000 \<le> t \<and> t < 1729990800000) \<noteq>
               (1711846800000 \<le> t - 86400000 \<and> t - 86400000 < 1729990800000)
            then acc @ [Some t] else acc)"
proof -
  have today: "isDST (getTimezoneInfo refHost (FromDate (Some t)) ''Europe/London'') =
                 (1711846800000 \<le> t \<and> t < 1729990800000)"
    using assms by (intro london_flag) simp_all
  have before: "newDate refHost (FromNumber (jsSub (getTime (Some t)) (Finite 86400000))) =
                  Some (t - 86400000)"
    using assms by (intro day_before) simp
  have yesterday:
    "isDST (getTimezoneInfo refHost (FromNumber (jsSub (getTime (Some t)) (Finite 86400000)))
        ''Europe/London'') =
      (1711846800000 \<le> t - 86400000 \<and> t - 86400000 < 1729990800000)"
    using assms by (intro london_flag [OF before]) simp_all
  have next_day: "dateSetLocal refHost DayOfMonth (Some t)
           (jsAdd (dateGetLocal refHost DayOfMonth (Some t)) (Finite 1)) = Some (t + 86400000)"
    using assms by (intro refHost_next_day) simp
  show ?thesis
    using assms(2)
    by (subst scanDays.simps) (simp add: today yesterday next_day)
qed

lemma london_scan:
  "scanDays refHost ''Europe/London'' (Some 1704067200000) (Some 1735603200000) [] =
     Some [Some 1704067200000, Some 1711929600000, Some 1730073600000]"
  unfolding london_scan_first
  by (simp add: london_scan_step scan_done)


text \<open>Whatever the host, a scan that ends only ever appends to the recorded days.\<close>

lemma scan_extends:
  assumes "scanDays h z d e acc = Some ts"
  shows "\<exists>rest. ts = acc @ rest"
  using assms
proof (induction rule: scanDays.raw_induct [rotated 1, consumes 1])
  case (1 scan h z d e acc ts)
  show ?case
  proof (cases "dateLessEq d e")
    case True
    with 1(2) obtain acc' where
      step: "scan h z (dateSetLocal h DayOfMonth d (jsAdd (dateGetLocal h DayOfMonth d) (Finite 1)))
               e acc' = Some ts"
      and acc': "acc' = acc \<or> acc' = acc @ [d]"
      by (auto split: if_splits)
    from 1(1) [OF step] obtain rest where "ts = acc' @ rest" ..
    with acc' show ?thesis by auto
  next
    case False
    with 1(2) show ?thesis by simp
  qed
qed

text \<open>So the first recorded day is the first day scanned, whether or not the flag changes
  there.\<close>

lemma scan_first_day:
  assumes "scanDays h z (Some a) (Some b) [] = Some ts" and "a \<le> b"
  shows "elementOrNull ts 0 = Some (Some a)"
proof -
  from assms have "scanDays h z
      (dateSetLocal h DayOfMonth (Some a) (jsAdd (dateGetLocal h DayOfMonth (Some a)) (Finite 1)))
      (Some b) [Some a] = Some ts"
    by (subst (asm) scanDays.simps) simp
  from scan_extends [OF this] obtain rest where "ts = [Some a] @ rest" ..
  then show ?thesis by (simp add: elementOrNull_def)
qed

text \<open>Whenever the scan is reached and ends, the start that \<open>getDSTTransitions\<close> returns is
  January 1 of the year.\<close>

lemma transitions_start_first_day:
  assumes "getDSTTransitions h now z (Some y) = Some r"
    and "z \<noteq> ''UTC''" and "z \<in> set (supportedTimeZones h)"
    and "\<not> (y = 2024 \<and> z = ''America/New_York'')"
    and "localDate h y 0 1 = Some a" and "localDate h y 11 31 = Some b" and "a \<le> b"
  shows "start r = Some (Some a)"
  using assms by (auto simp: getDSTTransitions_def Let_def scan_first_day)

text \<open>
  Claim C2 says that for a zone with one DST period in the year the scan returns the two days
  on which the flag differs from the day before. The code does not: on the reference host,
  for "Europe/London" and 2024, the scan records three days, the first day 2024-01-01 and
  the two days 2024-04-01 and 2024-10-28 on which the flag changes, and it returns
  2024-01-01 as start and 2024-04-01 as end. January 1 is no change of the flag (it is
  false on 2023-12-31 and on 2024-01-01), and the change on 2024-10-28 (true on 2024-10-27,
  false on 2024-10-28) is not returned.
\<close>

theorem london_2024_scan:
  "getDSTTransitions refHost 0 ''Europe/London'' (Some 2024) =
     Some \<lparr>start = Some (Some (utcTime 2024 1 1 0 0 0)),
           endDate = Some (Some (utcTime 2024 4 1 0 0 0))\<rparr>
   \<and> scanDays refHost ''Europe/London'' (localDate refHost 2024 0 1)
         (localDate refHost 2024 11 31) [] =
       Some [Some (utcTime 2024 1 1 0 0 0), Some (utcTime 2024 4 1 0 0 0),
             Some (utcTime 2024 10 28 0 0 0)]
   \<and> isDST (getTimezoneInfo refHost (FromString ''2023-12-31T00:00:00Z'') ''Europe/London'') = False
   \<and> isDST (getTimezoneInfo refHost (FromString ''2024-01-01T00:00:00Z'') ''Europe/London'') = False
   \<and> isDST (getTimezoneInfo refHost (FromString ''2024-10-27T00:00:00Z'') ''Europe/London'') = True
   \<and> isDST (getTimezoneInfo refHost (FromString ''2024-10-28T00:00:00Z'') ''Europe/London'') = False"
proof -
  have zone: "''Europe/London'' \<noteq> ''UTC''" "''Europe/London'' \<in> set (supportedTimeZones refHost)"
    "''Europe/London'' \<noteq> ''America/New_York''"
    by (simp_all add: refZones_def)
  have times: "utcTime 2024 1 1 0 0 0 = 1704067200000" "utcTime 2024 4 1 0 0 0 = 1711929600000"
    "utcTime 2024 10 28 0 0 0 = 1730073600000"
    by (simp_all add: utcTime_def daysFromCivil_def)
  have days: "scanDays refHost ''Europe/London'' (localDate refHost 2024 0 1)
         (localDate refHost 2024 11 31) [] =
       Some [Some (utcTime 2024 1 1 0 0 0), Some (utcTime 2024 4 1 0 0 0),
             Some (utcTime 2024 10 28 0 0 0)]"
    by (simp add: refLocalDate_2024 london_scan times)
  have scan: "getDSTTransitions refHost 0 ''Europe/London'' (Some 2024) =
     Some \<lparr>start = Some (Some (utcTime 2024 1 1 0 0 0)),
           endDate = Some (Some (utcTime 2024 4 1 0 0 0))\<rparr>"
    using zone
    by (simp add: getDSTTransitions_def Let_def refLocalDate_2024 london_scan elementOrNull_def
        times)
  have flags:
    "isDST (getTimezoneInfo refHost (FromString ''2023-12-31T00:00:00Z'') ''Europe/London'') = False"
    "isDST (getTimezoneInfo refHost (FromString ''2024-01-01T00:00:00Z'') ''Europe/London'') = False"
    "isDST (getTimezoneInfo refHost (FromString ''2024-10-27T00:00:00Z'') ''Europe/London'') = True"
    "isDST (getTimezoneInfo refHost (FromString ''2024-10-28T00:00:00Z'') ''Europe/London'') = False"
    by code_simp+
  from scan days flags show ?thesis by simp
qed

end
